theory Spec2Isabelle
  imports Complex_Main
begin

section \<open>JSON values as the theme code sees them\<close>

text \<open>
  A theme is a JSON document, so a \<open>Definition\<close> or a \<open>StyleDeclaration\<close> reaches the
  recognizers of the theme declarations as an arbitrary JSON value. An object is an association
  list; reading a property takes the first binding of the name. Numbers are compared
  only, never computed with, so they are modelled as reals.
\<close>

datatype json =
    JNull
  | JBool bool
  | JNum real
  | JStr string
  | JArr "json list"
  | JObj "(string \<times> json) list"

text \<open>The results of JavaScript's \<open>typeof\<close> that a JSON value can have. A property that
  is absent reads as \<open>undefined\<close>, modelled as \<open>None\<close>.\<close>

datatype jstype = TUndefined | TObject | TBoolean | TNumber | TString

fun typeof :: "json option \<Rightarrow> jstype" where
  "typeof None = TUndefined"
| "typeof (Some JNull) = TObject"
| "typeof (Some (JBool b)) = TBoolean"
| "typeof (Some (JNum n)) = TNumber"
| "typeof (Some (JStr s)) = TString"
| "typeof (Some (JArr xs)) = TObject"
| "typeof (Some (JObj kvs)) = TObject"

text \<open>\<open>v.name\<close> for one of the names the recognizers read (\<open>type\<close>, \<open>value\<close>,
  \<open>technique\<close>, \<open>when\<close>): an array owns none of them. The recognizers read a
  property only behind \<open>typeof v === "object" && v !== null\<close>, so the other cases are
  never reached in the source; here they read as \<open>undefined\<close>.\<close>

fun getProp :: "json \<Rightarrow> string \<Rightarrow> json option" where
  "getProp (JObj kvs) k = map_of kvs k"
| "getProp _ k = None"

fun isArray :: "json \<Rightarrow> bool" where
  "isArray (JArr xs) = True"
| "isArray _ = False"

section \<open>The recognizers of the theme declarations\<close>

text \<open>\<open>isBoxedDefinition\<close>. The helpers \<open>isInterpolatedPropertyDefinition\<close> and
  \<open>isJsonExpr\<close> are imported from modules that this development does not cover and are
  taken as parameters.\<close>

definition isBoxedDefinition ::
  "(json option \<Rightarrow> bool) \<Rightarrow> (json option \<Rightarrow> bool) \<Rightarrow> json \<Rightarrow> bool" where
  "isBoxedDefinition isInterpolatedPropertyDefinition isJsonExpr bdef =
     (typeof (Some bdef) = TObject \<and>
      bdef \<noteq> JNull \<and>
      (typeof (getProp bdef ''type'') = TString \<or>
       typeof (getProp bdef ''type'') = TUndefined) \<and>
      (typeof (getProp bdef ''value'') = TString \<or>
       typeof (getProp bdef ''value'') = TNumber \<or>
       typeof (getProp bdef ''value'') = TBoolean \<or>
       isInterpolatedPropertyDefinition (getProp bdef ''value'') \<or>
       isJsonExpr (getProp bdef ''value'')))"

definition isLiteralDefinition :: "json \<Rightarrow> bool" where
  "isLiteralDefinition d =
     (typeof (Some d) = TString \<or> typeof (Some d) = TNumber \<or> typeof (Some d) = TBoolean)"

definition isActualSelectorDefinition :: "json \<Rightarrow> bool" where
  "isActualSelectorDefinition styleDef =
     (typeof (Some styleDef) = TObject \<and>
      styleDef \<noteq> JNull \<and>
      \<not> isArray styleDef \<and>
      typeof (getProp styleDef ''technique'') = TString)"

text \<open>What the boxed-definition interfaces of the theme declare for each \<open>type\<close>:
  \<open>"boolean"\<close>, \<open>"number"\<close>, \<open>"string"\<close> and \<open>"color"\<close> carry a
  \<open>DynamicProperty\<close> of a boolean, a number, a string and a string (the plain value,
  an interpolation or an expression), \<open>"selector"\<close> carries a string or an expression;
  any other type string is a \<open>BoxedAnyDefinition\<close> and declares nothing more.\<close>

definition valueMatchesType ::
  "(json option \<Rightarrow> bool) \<Rightarrow> (json option \<Rightarrow> bool) \<Rightarrow> string \<Rightarrow> json option \<Rightarrow> bool" where
  "valueMatchesType isInterpolatedPropertyDefinition isJsonExpr ty v =
     (if ty = ''boolean'' then
        typeof v = TBoolean \<or> isInterpolatedPropertyDefinition v \<or> isJsonExpr v
      else if ty = ''number'' then
        typeof v = TNumber \<or> isInterpolatedPropertyDefinition v \<or> isJsonExpr v
      else if ty = ''string'' \<or> ty = ''color'' then
        typeof v = TString \<or> isInterpolatedPropertyDefinition v \<or> isJsonExpr v
      else if ty = ''selector'' then
        typeof v = TString \<or> isJsonExpr v
      else True)"

text \<open>A helper that accepts nothing: it agrees with both absent helpers on numbers,
  strings and booleans, which are neither interpolations (objects) nor expressions
  (arrays).\<close>

definition acceptsNothing :: "json option \<Rightarrow> bool" where
  "acceptsNothing v = False"

section \<open>StyleSetDataFilter\<close>

text \<open>The filter holds a \<open>StyleSetEvaluator\<close>, whose class this development does not
  cover; the two methods the filter calls are taken as they are called, as functions of
  their arguments.\<close>

record StyleSetEvaluator =
  ev_wantsLayer :: "string \<Rightarrow> bool"
  ev_wantsFeature :: "string \<Rightarrow> string \<Rightarrow> bool"

record StyleSetDataFilter =
  hasKindFilter :: bool
  styleSetEvaluator :: StyleSetEvaluator

text \<open>The constructor: the field initializer sets \<open>hasKindFilter\<close> to \<open>false\<close>.\<close>

definition newStyleSetDataFilter :: "StyleSetEvaluator \<Rightarrow> StyleSetDataFilter" where
  "newStyleSetDataFilter ev = \<lparr>hasKindFilter = False, styleSetEvaluator = ev\<rparr>"

definition wantsLayer :: "StyleSetDataFilter \<Rightarrow> string \<Rightarrow> real \<Rightarrow> bool" where
  "wantsLayer self layer level = ev_wantsLayer (styleSetEvaluator self) layer"

definition wantsPointFeature :: "StyleSetDataFilter \<Rightarrow> string \<Rightarrow> bool" where
  "wantsPointFeature self layer = ev_wantsFeature (styleSetEvaluator self) layer ''point''"

definition wantsLineFeature :: "StyleSetDataFilter \<Rightarrow> string \<Rightarrow> bool" where
  "wantsLineFeature self layer = ev_wantsFeature (styleSetEvaluator self) layer ''line''"

definition wantsPolygonFeature :: "StyleSetDataFilter \<Rightarrow> string \<Rightarrow> bool" where
  "wantsPolygonFeature self layer = ev_wantsFeature (styleSetEvaluator self) layer ''polygon''"

text \<open>\<open>wantsKind()\<close> declares no parameter: whatever a caller passes is discarded, and
  the receiver is its only input.\<close>

definition wantsKind :: "StyleSetDataFilter \<Rightarrow> bool" where
  "wantsKind self = True"

section \<open>The style-set evaluator\<close>

text \<open>
  The code of the class \<open>StyleSetEvaluator\<close> is not among the source files covered
  here: the theme declarations give the shape of a style rule (\<open>StyleSelector\<close>,
  \<open>BaseStyle\<close>) and document its fields, and the matching algorithm is described in
  prose only. The definitions of this section follow that description step by step.
  The expression evaluator is a parameter: a function from an expression and a context
  to a value or an error.
\<close>

text \<open>Modelled from the spec: the recoverable per-rule errors of the expression
  evaluator and the definition resolver, whose code is missing.\<close>

datatype evalError = EvalError | UnresolvedReferenceError

text \<open>Modelled from the spec: the evaluation context, a feature's tags and the current
  zoom level (a floating value, only ever compared).\<close>

record evalContext =
  featureTags :: "(string \<times> json) list"
  zoomLevel :: real

type_synonym 'e evaluator = "'e \<Rightarrow> evalContext \<Rightarrow> evalError + json"

text \<open>Modelled from the spec: an attribute is a literal or an expression, resolved only
  at match time (\<open>T | JsonExpr\<close> in the theme declarations).\<close>

datatype 'e property = Static json | Expression 'e

text \<open>The fields of \<open>StyleSelector\<close> and \<open>BaseStyle\<close> that matching reads, as
  the theme declares them: \<open>when\<close> is mandatory (here \<open>whenExpr\<close>, in parsed form),
  every other field is optional. \<open>params\<close> are the technique's attributes given at the
  top level of the rule, \<open>attr\<close> the ones given under \<open>attr\<close>.\<close>

record 'e style =
  whenExpr :: 'e
  layer :: "string option"
  final :: "bool option"
  technique :: string
  styleSet :: "string option"
  category :: "'e property option"
  renderOrder :: "'e property option"
  minZoomLevel :: "'e property option"
  maxZoomLevel :: "'e property option"
  params :: "(string \<times> 'e property) list"
  attr :: "(string \<times> 'e property) list"

text \<open>\<open>StylePriority\<close> of the theme declarations: a group and an optional category.\<close>

record StylePriority =
  group :: string
  priorityCategory :: "string option"

text \<open>Modelled from the spec: the technique emitted for a matched rule, with its name,
  its attribute values (no expression left), a numeric render order and a priority.\<close>

record emitted =
  techniqueName :: string
  attributes :: "(string \<times> json) list"
  emittedRenderOrder :: real
  priority :: nat

text \<open>Modelled from the spec: what testing one rule gives: the rule is skipped, its
  evaluation fails (a diagnostic, not fatal), or it matches and emits a technique.\<close>

datatype outcome = Skipped | Failed evalError | Matched emitted

text \<open>Modelled from the spec: whether a rule matched, which is what \<open>final\<close> reacts
  to.\<close>

fun isMatched :: "outcome \<Rightarrow> bool" where
  "isMatched (Matched t) = True"
| "isMatched _ = False"

text \<open>Modelled from the spec: a rule is skipped on a falsy result of \<open>when\<close>; falsy as
  in JavaScript.\<close>

fun truthy :: "json \<Rightarrow> bool" where
  "truthy JNull = False"
| "truthy (JBool b) = b"
| "truthy (JNum n) = (n \<noteq> 0)"
| "truthy (JStr s) = (s \<noteq> [])"
| "truthy (JArr xs) = True"
| "truthy (JObj kvs) = True"

text \<open>Modelled from the spec: resolving one attribute against a feature and a zoom
  level.\<close>

fun evalProperty :: "'e evaluator \<Rightarrow> evalContext \<Rightarrow> 'e property \<Rightarrow> evalError + json" where
  "evalProperty ev ctx (Static v) = Inr v"
| "evalProperty ev ctx (Expression e) = ev e ctx"

text \<open>Modelled from the spec: a zoom bound or a render order is a number or an
  expression evaluated before use; a value that is not a number is an evaluation
  error (wrong type).\<close>

definition evalNumber :: "'e evaluator \<Rightarrow> evalContext \<Rightarrow> 'e property \<Rightarrow> evalError + real" where
  "evalNumber ev ctx p =
     (case evalProperty ev ctx p of
        Inl err \<Rightarrow> Inl err
      | Inr (JNum n) \<Rightarrow> Inr n
      | Inr _ \<Rightarrow> Inl EvalError)"

text \<open>Modelled from the spec: a category is a string or an expression evaluated to
  one.\<close>

definition evalString :: "'e evaluator \<Rightarrow> evalContext \<Rightarrow> 'e property \<Rightarrow> evalError + string" where
  "evalString ev ctx p =
     (case evalProperty ev ctx p of
        Inl err \<Rightarrow> Inl err
      | Inr (JStr s) \<Rightarrow> Inr s
      | Inr _ \<Rightarrow> Inl EvalError)"

text \<open>Modelled from the spec: step 1 of matching, the zoom test. Each bound is
  optional, an absent bound does not restrict, and the zoom level must lie in
  \<open>[minZoomLevel, maxZoomLevel]\<close>.\<close>

definition zoomInRange :: "'e evaluator \<Rightarrow> evalContext \<Rightarrow> 'e style \<Rightarrow> evalError + bool" where
  "zoomInRange ev ctx r =
     (case minZoomLevel r of
        None \<Rightarrow>
          (case maxZoomLevel r of
             None \<Rightarrow> Inr True
           | Some b \<Rightarrow>
               (case evalNumber ev ctx b of
                  Inl err \<Rightarrow> Inl err
                | Inr hi \<Rightarrow> Inr (zoomLevel ctx \<le> hi)))
      | Some a \<Rightarrow>
          (case evalNumber ev ctx a of
             Inl err \<Rightarrow> Inl err
           | Inr lo \<Rightarrow>
               (case maxZoomLevel r of
                  None \<Rightarrow> Inr (lo \<le> zoomLevel ctx)
                | Some b \<Rightarrow>
                    (case evalNumber ev ctx b of
                       Inl err \<Rightarrow> Inl err
                     | Inr hi \<Rightarrow> Inr (lo \<le> zoomLevel ctx \<and> zoomLevel ctx \<le> hi)))))"

text \<open>Modelled from the spec: resolving every attribute of a rule; the first failure
  fails the rule.\<close>

fun resolveAttributes ::
  "'e evaluator \<Rightarrow> evalContext \<Rightarrow> (string \<times> 'e property) list \<Rightarrow> evalError + (string \<times> json) list" where
  "resolveAttributes ev ctx [] = Inr []"
| "resolveAttributes ev ctx ((k, p) # rest) =
     (case evalProperty ev ctx p of
        Inl err \<Rightarrow> Inl err
      | Inr v \<Rightarrow>
          (case resolveAttributes ev ctx rest of
             Inl err \<Rightarrow> Inl err
           | Inr vs \<Rightarrow> Inr ((k, v) # vs)))"

text \<open>Modelled from the spec: an attribute under \<open>attr\<close> overrides the attribute of the
  same name given at the top level of the rule.\<close>

definition mergedAttributes :: "'e style \<Rightarrow> (string \<times> 'e property) list" where
  "mergedAttributes r = filter (\<lambda>kp. fst kp \<notin> set (map fst (attr r))) (params r) @ attr r"

text \<open>Modelled from the spec: the render order of a matched rule, the explicit value
  if given, else the rule's declaration index.\<close>

definition computeRenderOrder :: "'e evaluator \<Rightarrow> evalContext \<Rightarrow> nat \<Rightarrow> 'e style \<Rightarrow> evalError + real" where
  "computeRenderOrder ev ctx i r =
     (case renderOrder r of
        None \<Rightarrow> Inr (real i)
      | Some p \<Rightarrow> evalNumber ev ctx p)"

text \<open>Modelled from the spec: the position of the first entry of a table that
  satisfies a test, the first entry having the highest priority.\<close>

fun findIndex :: "('a \<Rightarrow> bool) \<Rightarrow> 'a list \<Rightarrow> nat option" where
  "findIndex P [] = None"
| "findIndex P (x # xs) =
     (if P x then Some 0 else (case findIndex P xs of None \<Rightarrow> None | Some n \<Rightarrow> Some (Suc n)))"

text \<open>Modelled from the spec: the priority of a matched rule, the position of its
  \<open>(styleSet, category)\<close> pair in the theme's \<open>priorities\<close>, the exact pair before the
  entry of the group without a category, else the declaration index. The table of
  label priorities is not modelled.\<close>

definition lookupPriority :: "StylePriority list \<Rightarrow> string option \<Rightarrow> string option \<Rightarrow> nat option" where
  "lookupPriority priorities sset cat =
     (case sset of
        None \<Rightarrow> None
      | Some g \<Rightarrow>
          (case findIndex (\<lambda>p. group p = g \<and> priorityCategory p = cat) priorities of
             Some n \<Rightarrow> Some n
           | None \<Rightarrow> findIndex (\<lambda>p. group p = g \<and> priorityCategory p = None) priorities))"

text \<open>Modelled from the spec: the priority of a rule declared at index \<open>i\<close>, after
  its category has been evaluated.\<close>

definition computePriority ::
  "'e evaluator \<Rightarrow> StylePriority list \<Rightarrow> evalContext \<Rightarrow> nat \<Rightarrow> 'e style \<Rightarrow> evalError + nat" where
  "computePriority ev priorities ctx i r =
     (case category r of
        None \<Rightarrow>
          Inr (case lookupPriority priorities (styleSet r) None of None \<Rightarrow> i | Some n \<Rightarrow> n)
      | Some p \<Rightarrow>
          (case evalString ev ctx p of
             Inl err \<Rightarrow> Inl err
           | Inr c \<Rightarrow>
               Inr (case lookupPriority priorities (styleSet r) (Some c) of
                      None \<Rightarrow> i
                    | Some n \<Rightarrow> n)))"

text \<open>Modelled from the spec: step 3 of matching, the technique of a rule that
  matched. A failure while resolving degrades to "the rule does not match".\<close>

definition emitTechnique ::
  "'e evaluator \<Rightarrow> StylePriority list \<Rightarrow> evalContext \<Rightarrow> nat \<Rightarrow> 'e style \<Rightarrow> outcome" where
  "emitTechnique ev priorities ctx i r =
     (case resolveAttributes ev ctx (mergedAttributes r) of
        Inl err \<Rightarrow> Failed err
      | Inr vs \<Rightarrow>
          (case computeRenderOrder ev ctx i r of
             Inl err \<Rightarrow> Failed err
           | Inr ro \<Rightarrow>
               (case computePriority ev priorities ctx i r of
                  Inl err \<Rightarrow> Failed err
                | Inr pr \<Rightarrow>
                    Matched \<lparr>techniqueName = technique r, attributes = vs,
                             emittedRenderOrder = ro, priority = pr\<rparr>)))"

text \<open>Modelled from the spec: testing one candidate rule, declared at index \<open>i\<close>:
  the zoom test, then \<open>when\<close> (skipped on a falsy result, failed on an evaluation
  error), then the technique.\<close>

definition matchRule ::
  "'e evaluator \<Rightarrow> StylePriority list \<Rightarrow> evalContext \<Rightarrow> nat \<Rightarrow> 'e style \<Rightarrow> outcome" where
  "matchRule ev priorities ctx i r =
     (case zoomInRange ev ctx r of
        Inl err \<Rightarrow> Failed err
      | Inr False \<Rightarrow> Skipped
      | Inr True \<Rightarrow>
          (case ev (whenExpr r) ctx of
             Inl err \<Rightarrow> Failed err
           | Inr v \<Rightarrow> if truthy v then emitTechnique ev priorities ctx i r else Skipped))"

text \<open>Modelled from the spec: the candidate rules are tested in declaration order;
  after a rule with \<open>final: true\<close> has matched, no further rule is tested. The result
  lists every rule that was tested, by its declaration index, with its outcome.\<close>

fun evalRules ::
  "'e evaluator \<Rightarrow> StylePriority list \<Rightarrow> evalContext \<Rightarrow> (nat \<times> 'e style) list \<Rightarrow> (nat \<times> outcome) list" where
  "evalRules ev priorities ctx [] = []"
| "evalRules ev priorities ctx ((i, r) # rest) =
     (i, matchRule ev priorities ctx i r) #
     (if isMatched (matchRule ev priorities ctx i r) \<and> final r = Some True then []
      else evalRules ev priorities ctx rest)"

text \<open>Modelled from the spec: matching is restricted to the rules whose \<open>layer\<close> is
  unset or equals the layer asked for.\<close>

definition candidate :: "string \<Rightarrow> 'e style \<Rightarrow> bool" where
  "candidate layerName r = (layer r = None \<or> layer r = Some layerName)"

text \<open>Modelled from the spec: the rules tested for one feature of a layer at a zoom
  level, each rule with its declaration index in the style set.\<close>

definition evalTrace ::
  "'e evaluator \<Rightarrow> StylePriority list \<Rightarrow> 'e style list \<Rightarrow> string \<Rightarrow> (string \<times> json) list \<Rightarrow> real
     \<Rightarrow> (nat \<times> outcome) list" where
  "evalTrace ev priorities rules layerName tags zoom =
     evalRules ev priorities \<lparr>featureTags = tags, zoomLevel = zoom\<rparr>
       (filter (\<lambda>ir. candidate layerName (snd ir)) (enumerate 0 rules))"

text \<open>Modelled from the spec: the output list, to which each match appends its
  technique.\<close>

fun techniquesOf :: "(nat \<times> outcome) list \<Rightarrow> emitted list" where
  "techniquesOf [] = []"
| "techniquesOf ((i, Matched t) # rest) = t # techniquesOf rest"
| "techniquesOf ((i, Skipped) # rest) = techniquesOf rest"
| "techniquesOf ((i, Failed err) # rest) = techniquesOf rest"

text \<open>Modelled from the spec: \<open>getMatchingTechniques\<close>, the techniques of the rules that
  matched, in the order in which they were appended.\<close>

definition getMatchingTechniques ::
  "'e evaluator \<Rightarrow> StylePriority list \<Rightarrow> 'e style list \<Rightarrow> string \<Rightarrow> (string \<times> json) list \<Rightarrow> real
     \<Rightarrow> emitted list" where
  "getMatchingTechniques ev priorities rules layerName tags zoom =
     techniquesOf (evalTrace ev priorities rules layerName tags zoom)"

text \<open>An evaluator for expressions that are constants: it returns the expression.\<close>

definition constantEvaluator :: "json evaluator" where
  "constantEvaluator e ctx = Inr e"

text \<open>A rule with no optional field set, whose condition is the constant \<open>true\<close>.\<close>

definition plainRule :: "json style" where
  "plainRule =
     \<lparr>whenExpr = JBool True, layer = None, final = None, technique = ''solid-line'',
      styleSet = None, category = None, renderOrder = None, minZoomLevel = None,
      maxZoomLevel = None, params = [], attr = []\<rparr>"

section \<open>The feature filter\<close>

text \<open>Claim C9: for every receiver, the filter's \<open>wantsKind\<close> returns true, so the kind
  never rejects anything, and a filter as constructed has \<open>hasKindFilter\<close> false.\<close>

theorem wantsKind_permissive:
  "wantsKind self = True \<and> hasKindFilter (newStyleSetDataFilter ev) = False"
  by (simp add: wantsKind_def newStyleSetDataFilter_def)

text \<open>Claim C10: the filter's \<open>wantsLayer\<close> ignores its zoom-level argument: for every
  layer name and any two levels the answers agree, and both are the answer of the
  evaluator's \<open>wantsLayer\<close> for that layer.\<close>

theorem wantsLayer_ignores_level:
  "wantsLayer self name l1 = wantsLayer self name l2 \<and>
   wantsLayer self name l1 = ev_wantsLayer (styleSetEvaluator self) name"
  by (simp add: wantsLayer_def)

section \<open>The recognizers\<close>

lemma typeof_string_cases: "typeof v = TString \<longleftrightarrow> (\<exists>s. v = Some (JStr s))"
  by (cases v rule: typeof.cases) simp_all

lemma map_of_drop_when:
  "map_of (filter (\<lambda>kv. fst kv \<noteq> ''when'') kvs) ''technique'' = map_of kvs ''technique''"
  by (induction kvs) auto

text \<open>Claim C6, as amended: \<open>isActualSelectorDefinition\<close> classifies a definition as a
  concrete style declaration exactly when it is an object, not an array, whose
  \<open>technique\<close> is a string. It does not read \<open>when\<close>: putting a \<open>when\<close> property in front
  of an object, or removing every \<open>when\<close> property from it, leaves the answer as it
  was.\<close>

theorem isActualSelectorDefinition_technique_only:
  "isActualSelectorDefinition d =
     (\<exists>kvs s. d = JObj kvs \<and> map_of kvs ''technique'' = Some (JStr s)) \<and>
   isActualSelectorDefinition (JObj ((''when'', w) # kvs)) =
     isActualSelectorDefinition (JObj kvs) \<and>
   isActualSelectorDefinition (JObj (filter (\<lambda>kv. fst kv \<noteq> ''when'') kvs)) =
     isActualSelectorDefinition (JObj kvs)"
proof -
  have shape: "isActualSelectorDefinition d =
     (\<exists>kvs s. d = JObj kvs \<and> map_of kvs ''technique'' = Some (JStr s))"
    by (cases d) (auto simp add: isActualSelectorDefinition_def typeof_string_cases)
  show ?thesis
    using shape map_of_drop_when [of kvs] by (simp add: isActualSelectorDefinition_def)
qed

text \<open>Claim C6 as first stated fails: the object \<open>{"technique": "fill"}\<close> is classified
  as a concrete style declaration and has no \<open>when\<close> property.\<close>

theorem isActualSelectorDefinition_without_when:
  "isActualSelectorDefinition (JObj [(''technique'', JStr ''fill'')]) \<and>
   getProp (JObj [(''technique'', JStr ''fill'')]) ''when'' = None"
  by (simp add: isActualSelectorDefinition_def)

text \<open>Claim C7, as amended: every definition that \<open>isBoxedDefinition\<close> accepts has a
  \<open>type\<close> that is absent or a string and a \<open>value\<close> that is a string, a number, a
  boolean, an interpolated property or an expression. The two are not compared:
  exchanging the type string for any other leaves the answer as it was.\<close>

theorem isBoxedDefinition_shape:
  "(isBoxedDefinition isI isJ d \<longrightarrow>
      (typeof (getProp d ''type'') = TString \<or> typeof (getProp d ''type'') = TUndefined) \<and>
      (typeof (getProp d ''value'') = TString \<or> typeof (getProp d ''value'') = TNumber \<or>
       typeof (getProp d ''value'') = TBoolean \<or> isI (getProp d ''value'') \<or>
       isJ (getProp d ''value''))) \<and>
   isBoxedDefinition isI isJ (JObj ((''type'', JStr s) # kvs)) =
     isBoxedDefinition isI isJ (JObj ((''type'', JStr s') # kvs))"
  by (simp add: isBoxedDefinition_def)

theorem isBoxedDefinition_shape_witness:
  "isBoxedDefinition acceptsNothing acceptsNothing
     (JObj [(''type'', JStr ''number''), (''value'', JStr ''#f00'')]) \<and>
   typeof (getProp (JObj [(''type'', JStr ''number''), (''value'', JStr ''#f00'')]) ''type'')
     = TString \<and>
   typeof (getProp (JObj [(''type'', JStr ''number''), (''value'', JStr ''#f00'')]) ''value'')
     = TString \<and>
   isBoxedDefinition acceptsNothing acceptsNothing
     (JObj [(''type'', JStr ''color''), (''value'', JStr ''#f00'')])"
  using isBoxedDefinition_shape [of acceptsNothing acceptsNothing
      "JObj [(''type'', JStr ''number''), (''value'', JStr ''#f00'')]" "''number''"
      "[(''value'', JStr ''#f00'')]" "''color''"]
  by (simp add: isBoxedDefinition_def)

text \<open>Claim C7 as first stated fails: the definition \<open>{"type": "color", "value": 5}\<close>
  is accepted, its type is \<open>"color"\<close>, and its value, a number, is not what a color
  carries.\<close>

theorem isBoxedDefinition_type_mismatch:
  "isBoxedDefinition acceptsNothing acceptsNothing
     (JObj [(''type'', JStr ''color''), (''value'', JNum 5)]) \<and>
   getProp (JObj [(''type'', JStr ''color''), (''value'', JNum 5)]) ''type''
     = Some (JStr ''color'') \<and>
   \<not> valueMatchesType acceptsNothing acceptsNothing ''color''
       (getProp (JObj [(''type'', JStr ''color''), (''value'', JNum 5)]) ''value'')"
  by (simp add: isBoxedDefinition_def valueMatchesType_def acceptsNothing_def)

section \<open>Matching\<close>

subsection \<open>The rules that are tested\<close>

lemma evalRules_final_cut:
  "isMatched (matchRule ev ps ctx i r) \<Longrightarrow> final r = Some True \<Longrightarrow>
   evalRules ev ps ctx (xs @ (i, r) # ys) = evalRules ev ps ctx (xs @ [(i, r)])"
proof (induction xs)
  case Nil
  then show ?case by simp
next
  case (Cons x xs)
  then show ?case by (cases x) simp
qed

lemma evalRules_fst_subset:
  "set (map fst (evalRules ev ps ctx irs)) \<subseteq> set (map fst irs)"
proof (induction irs)
  case Nil
  then show ?case by simp
next
  case (Cons x irs)
  then show ?case by (cases x) auto
qed

lemma evalRules_outcome:
  "(i, out) \<in> set (evalRules ev ps ctx irs) \<Longrightarrow>
   \<exists>r. (i, r) \<in> set irs \<and> out = matchRule ev ps ctx i r"
proof (induction irs)
  case Nil
  then show ?case by simp
next
  case (Cons x irs)
  then show ?case by (cases x) (auto split: if_splits)
qed

lemma techniquesOf_mem:
  "t \<in> set (techniquesOf tr) \<longleftrightarrow> (\<exists>i. (i, Matched t) \<in> set tr)"
  by (induction tr rule: techniquesOf.induct) auto

lemma filter_fst_subset: "set (map fst (filter P xs)) \<subseteq> set (map fst xs)"
  by auto

lemma evalRules_sorted:
  "sorted_wrt (<) (map fst irs) \<Longrightarrow> sorted_wrt (<) (map fst (evalRules ev ps ctx irs))"
proof (induction irs)
  case Nil
  then show ?case by simp
next
  case (Cons x irs)
  obtain i r where x: "x = (i, r)" by (cases x)
  have "\<forall>j \<in> set (map fst irs). i < j"
    using Cons.prems x by simp
  then have "\<forall>j \<in> set (map fst (evalRules ev ps ctx irs)). i < j"
    using evalRules_fst_subset [of ev ps ctx irs] by blast
  moreover have "sorted_wrt (<) (map fst (evalRules ev ps ctx irs))"
    using Cons by simp
  ultimately show ?case using x by simp
qed

lemma candidates_sorted:
  "sorted_wrt (<) (map fst (filter P (enumerate n rules)))"
proof -
  have "sorted_wrt (<) (map fst (enumerate n rules))"
    by (simp add: sorted_wrt_upt)
  then have "sorted_wrt (\<lambda>a b. fst a < fst b) (enumerate n rules)"
    unfolding sorted_wrt_map .
  then have "sorted_wrt (\<lambda>a b. fst a < fst b) (filter P (enumerate n rules))"
    by (rule sorted_wrt_filter)
  then show ?thesis by (simp add: sorted_wrt_map)
qed

text \<open>The definitions that evaluating a concrete match unfolds.\<close>

lemmas evaluation =
  getMatchingTechniques_def evalTrace_def candidate_def plainRule_def matchRule_def
  zoomInRange_def constantEvaluator_def emitTechnique_def mergedAttributes_def
  computeRenderOrder_def computePriority_def lookupPriority_def evalNumber_def

subsection \<open>Stopping at a final rule\<close>

text \<open>Claim C2: if a candidate rule with \<open>final\<close> set to true matches, the rules
  declared after it are not tested and contribute nothing: the tested rules and the
  techniques are those of the style set cut after that rule, and no tested rule has a
  later index. In particular, when the final rule is declared first, its technique is
  the whole result, whatever follows it.\<close>

theorem final_short_circuit:
  assumes cand: "candidate layerName r"
    and hit: "matchRule ev ps \<lparr>featureTags = tags, zoomLevel = zoom\<rparr> (length pre) r = Matched t"
    and fin: "final r = Some True"
  shows "evalTrace ev ps (pre @ r # post) layerName tags zoom =
           evalTrace ev ps (pre @ [r]) layerName tags zoom \<and>
         getMatchingTechniques ev ps (pre @ r # post) layerName tags zoom =
           getMatchingTechniques ev ps (pre @ [r]) layerName tags zoom \<and>
         list_all (\<lambda>io. fst io \<le> length pre)
           (evalTrace ev ps (pre @ r # post) layerName tags zoom) \<and>
         (pre = [] \<longrightarrow> getMatchingTechniques ev ps (r # post) layerName tags zoom = [t])"
proof -
  let ?ctx = "\<lparr>featureTags = tags, zoomLevel = zoom\<rparr>"
  let ?P = "\<lambda>ir. candidate layerName (snd ir)"
  have m: "isMatched (matchRule ev ps ?ctx (length pre) r)"
    using hit by simp
  have cut: "evalTrace ev ps (pre @ r # post) layerName tags zoom =
      evalTrace ev ps (pre @ [r]) layerName tags zoom"
    unfolding evalTrace_def
    using cand evalRules_final_cut [OF m fin, of "filter ?P (enumerate 0 pre)"]
    by (simp add: enumerate_append_eq)
  have sub: "fst ` set (evalTrace ev ps (pre @ [r]) layerName tags zoom)
      \<subseteq> {0..<Suc (length pre)}"
  proof -
    have "set (map fst (evalRules ev ps ?ctx (filter ?P (enumerate 0 (pre @ [r])))))
        \<subseteq> set (map fst (filter ?P (enumerate 0 (pre @ [r]))))"
      by (rule evalRules_fst_subset)
    moreover have "set (map fst (filter ?P (enumerate 0 (pre @ [r]))))
        \<subseteq> set (map fst (enumerate 0 (pre @ [r])))"
      by (rule filter_fst_subset)
    moreover have "set (map fst (enumerate 0 (pre @ [r]))) = {0..<Suc (length pre)}"
      by (simp only: map_fst_enumerate set_upt length_append list.size) simp
    ultimately show ?thesis
      unfolding evalTrace_def by (simp only: set_map)
  qed
  have bound: "list_all (\<lambda>io. fst io \<le> length pre)
      (evalTrace ev ps (pre @ r # post) layerName tags zoom)"
    unfolding cut list_all_iff using sub by fastforce
  have single: "getMatchingTechniques ev ps (r # post) layerName tags zoom = [t]" if "pre = []"
    using that cand hit fin
    by (simp add: getMatchingTechniques_def evalTrace_def)
  show ?thesis
    using cut bound single by (simp add: getMatchingTechniques_def)
qed

theorem final_short_circuit_witness:
  "candidate ''roads'' (plainRule\<lparr>final := Some True\<rparr>) \<and>
   matchRule constantEvaluator [] \<lparr>featureTags = [], zoomLevel = 10\<rparr> 0
     (plainRule\<lparr>final := Some True\<rparr>) =
     Matched \<lparr>techniqueName = ''solid-line'', attributes = [], emittedRenderOrder = 0,
              priority = 0\<rparr> \<and>
   matchRule constantEvaluator [] \<lparr>featureTags = [], zoomLevel = 10\<rparr> 1
     (plainRule\<lparr>technique := ''fill''\<rparr>) =
     Matched \<lparr>techniqueName = ''fill'', attributes = [], emittedRenderOrder = 1,
              priority = 1\<rparr> \<and>
   getMatchingTechniques constantEvaluator []
     [plainRule\<lparr>final := Some True\<rparr>, plainRule\<lparr>technique := ''fill''\<rparr>] ''roads'' [] 10 =
     [\<lparr>techniqueName = ''solid-line'', attributes = [], emittedRenderOrder = 0,
       priority = 0\<rparr>]"
proof -
  let ?r1 = "plainRule\<lparr>final := Some True\<rparr>"
  let ?r2 = "plainRule\<lparr>technique := ''fill''\<rparr>"
  let ?t = "\<lparr>techniqueName = ''solid-line'', attributes = [], emittedRenderOrder = 0,
             priority = 0\<rparr>"
  let ?ctx = "\<lparr>featureTags = [], zoomLevel = 10\<rparr>"
  have c: "candidate ''roads'' ?r1"
    by (simp add: candidate_def plainRule_def)
  have h: "matchRule constantEvaluator [] ?ctx (length []) ?r1 = Matched ?t"
    by (simp add: evaluation)
  have h2: "matchRule constantEvaluator [] ?ctx 1 ?r2 =
      Matched \<lparr>techniqueName = ''fill'', attributes = [], emittedRenderOrder = 1,
               priority = 1\<rparr>"
    by (simp add: evaluation)
  have f: "final ?r1 = Some True" by simp
  have "getMatchingTechniques constantEvaluator [] [?r1, ?r2] ''roads'' [] 10 = [?t]"
    using final_short_circuit [OF c h f, of "[?r2]"] by blast
  then show ?thesis
    using c h h2 by simp
qed

subsection \<open>Zoom bounds\<close>

text \<open>Claim C5: with both bounds set and evaluated to \<open>lo\<close> and \<open>hi\<close>, a rule is
  tested further exactly when \<open>lo \<le> zoomLevel \<le> hi\<close>: inside the range, bounds
  included, matching goes on to \<open>when\<close> and the technique, outside it the rule is
  skipped; an absent bound does not restrict its side. So a rule whose condition holds
  matches exactly inside its range, and a style set of that one rule yields its
  technique there and nothing elsewhere. With the bounds 5 and 10 the rule is tested at
  zoom 5 and at zoom 10, and skipped at 4.999 and at 10.001.\<close>

theorem zoom_bounds_inclusive:
  "(minZoomLevel r = Some a \<and> evalNumber ev ctx a = Inr lo \<and>
    maxZoomLevel r = Some b \<and> evalNumber ev ctx b = Inr hi \<longrightarrow>
      zoomInRange ev ctx r = Inr (lo \<le> zoomLevel ctx \<and> zoomLevel ctx \<le> hi) \<and>
      matchRule ev ps ctx i r =
        (if lo \<le> zoomLevel ctx \<and> zoomLevel ctx \<le> hi then
           (case ev (whenExpr r) ctx of
              Inl err \<Rightarrow> Failed err
            | Inr v \<Rightarrow> if truthy v then emitTechnique ev ps ctx i r else Skipped)
         else Skipped)) \<and>
   (minZoomLevel r = None \<and> maxZoomLevel r = Some b \<and> evalNumber ev ctx b = Inr hi \<longrightarrow>
      zoomInRange ev ctx r = Inr (zoomLevel ctx \<le> hi) \<and>
      matchRule ev ps ctx i r =
        (if zoomLevel ctx \<le> hi then
           (case ev (whenExpr r) ctx of
              Inl err \<Rightarrow> Failed err
            | Inr v \<Rightarrow> if truthy v then emitTechnique ev ps ctx i r else Skipped)
         else Skipped)) \<and>
   (minZoomLevel r = Some a \<and> evalNumber ev ctx a = Inr lo \<and> maxZoomLevel r = None \<longrightarrow>
      zoomInRange ev ctx r = Inr (lo \<le> zoomLevel ctx) \<and>
      matchRule ev ps ctx i r =
        (if lo \<le> zoomLevel ctx then
           (case ev (whenExpr r) ctx of
              Inl err \<Rightarrow> Failed err
            | Inr v \<Rightarrow> if truthy v then emitTechnique ev ps ctx i r else Skipped)
         else Skipped)) \<and>
   (minZoomLevel r = None \<and> maxZoomLevel r = None \<longrightarrow>
      zoomInRange ev ctx r = Inr True \<and>
      matchRule ev ps ctx i r =
        (case ev (whenExpr r) ctx of
           Inl err \<Rightarrow> Failed err
         | Inr v \<Rightarrow> if truthy v then emitTechnique ev ps ctx i r else Skipped)) \<and>
   (zoomInRange ev ctx r = Inr False \<longrightarrow> matchRule ev ps ctx i r = Skipped) \<and>
   (isMatched (matchRule ev ps ctx i r) \<longrightarrow> zoomInRange ev ctx r = Inr True) \<and>
   (minZoomLevel r = Some a \<and> evalNumber ev ctx a = Inr lo \<and>
    maxZoomLevel r = Some b \<and> evalNumber ev ctx b = Inr hi \<and>
    ev (whenExpr r) ctx = Inr v \<and> truthy v \<and> emitTechnique ev ps ctx i r = Matched t \<longrightarrow>
      isMatched (matchRule ev ps ctx i r) = (lo \<le> zoomLevel ctx \<and> zoomLevel ctx \<le> hi) \<and>
      matchRule ev ps ctx i r =
        (if lo \<le> zoomLevel ctx \<and> zoomLevel ctx \<le> hi then Matched t else Skipped)) \<and>
   (candidate layerName r \<and>
    minZoomLevel r = Some a \<and>
    evalNumber ev \<lparr>featureTags = tags, zoomLevel = zoom\<rparr> a = Inr lo \<and>
    maxZoomLevel r = Some b \<and>
    evalNumber ev \<lparr>featureTags = tags, zoomLevel = zoom\<rparr> b = Inr hi \<and>
    ev (whenExpr r) \<lparr>featureTags = tags, zoomLevel = zoom\<rparr> = Inr v \<and> truthy v \<and>
    emitTechnique ev ps \<lparr>featureTags = tags, zoomLevel = zoom\<rparr> 0 r = Matched t \<longrightarrow>
      getMatchingTechniques ev ps [r] layerName tags zoom =
        (if lo \<le> zoom \<and> zoom \<le> hi then [t] else [])) \<and>
   (minZoomLevel r = Some (Static (JNum 5)) \<and> maxZoomLevel r = Some (Static (JNum 10)) \<longrightarrow>
      zoomInRange ev \<lparr>featureTags = tags, zoomLevel = 5\<rparr> r = Inr True \<and>
      zoomInRange ev \<lparr>featureTags = tags, zoomLevel = 10\<rparr> r = Inr True \<and>
      zoomInRange ev \<lparr>featureTags = tags, zoomLevel = 4.999\<rparr> r = Inr False \<and>
      zoomInRange ev \<lparr>featureTags = tags, zoomLevel = 10.001\<rparr> r = Inr False \<and>
      matchRule ev ps \<lparr>featureTags = tags, zoomLevel = 5\<rparr> i r =
        (case ev (whenExpr r) \<lparr>featureTags = tags, zoomLevel = 5\<rparr> of
           Inl err \<Rightarrow> Failed err
         | Inr v \<Rightarrow>
             if truthy v then emitTechnique ev ps \<lparr>featureTags = tags, zoomLevel = 5\<rparr> i r
             else Skipped) \<and>
      matchRule ev ps \<lparr>featureTags = tags, zoomLevel = 10\<rparr> i r =
        (case ev (whenExpr r) \<lparr>featureTags = tags, zoomLevel = 10\<rparr> of
           Inl err \<Rightarrow> Failed err
         | Inr v \<Rightarrow>
             if truthy v then emitTechnique ev ps \<lparr>featureTags = tags, zoomLevel = 10\<rparr> i r
             else Skipped) \<and>
      matchRule ev ps \<lparr>featureTags = tags, zoomLevel = 4.999\<rparr> i r = Skipped \<and>
      matchRule ev ps \<lparr>featureTags = tags, zoomLevel = 10.001\<rparr> i r = Skipped)"
proof -
  have matched: "isMatched (matchRule ev ps ctx i r) \<longrightarrow> zoomInRange ev ctx r = Inr True"
    by (auto simp add: matchRule_def split: sum.splits bool.splits)
  have skipped: "zoomInRange ev ctx r = Inr False \<longrightarrow> matchRule ev ps ctx i r = Skipped"
    by (simp add: matchRule_def)
  have gate: "matchRule ev ps c j r =
      (if inside then
         (case ev (whenExpr r) c of
            Inl err \<Rightarrow> Failed err
          | Inr v \<Rightarrow> if truthy v then emitTechnique ev ps c j r else Skipped)
       else Skipped)"
    if "zoomInRange ev c r = Inr inside" for c j inside
    using that by (simp add: matchRule_def)
  have both: "zoomInRange ev c r = Inr (l \<le> zoomLevel c \<and> zoomLevel c \<le> h)"
    if "minZoomLevel r = Some a'" "evalNumber ev c a' = Inr l"
      "maxZoomLevel r = Some b'" "evalNumber ev c b' = Inr h" for c a' b' l h
    using that by (simp add: zoomInRange_def)
  have upper: "zoomInRange ev ctx r = Inr (zoomLevel ctx \<le> hi)"
    if "minZoomLevel r = None" "maxZoomLevel r = Some b" "evalNumber ev ctx b = Inr hi"
    using that by (simp add: zoomInRange_def)
  have lower: "zoomInRange ev ctx r = Inr (lo \<le> zoomLevel ctx)"
    if "minZoomLevel r = Some a" "evalNumber ev ctx a = Inr lo" "maxZoomLevel r = None"
    using that by (simp add: zoomInRange_def)
  have none: "zoomInRange ev ctx r = Inr True"
    if "minZoomLevel r = None" "maxZoomLevel r = None"
    using that by (simp add: zoomInRange_def)
  have c1: "minZoomLevel r = Some a \<and> evalNumber ev ctx a = Inr lo \<and>
    maxZoomLevel r = Some b \<and> evalNumber ev ctx b = Inr hi \<longrightarrow>
      zoomInRange ev ctx r = Inr (lo \<le> zoomLevel ctx \<and> zoomLevel ctx \<le> hi) \<and>
      matchRule ev ps ctx i r =
        (if lo \<le> zoomLevel ctx \<and> zoomLevel ctx \<le> hi then
           (case ev (whenExpr r) ctx of
              Inl err \<Rightarrow> Failed err
            | Inr v \<Rightarrow> if truthy v then emitTechnique ev ps ctx i r else Skipped)
         else Skipped)"
    using both [of a ctx lo b hi] gate [of ctx "lo \<le> zoomLevel ctx \<and> zoomLevel ctx \<le> hi" i]
    by blast
  have c2: "minZoomLevel r = None \<and> maxZoomLevel r = Some b \<and> evalNumber ev ctx b = Inr hi \<longrightarrow>
      zoomInRange ev ctx r = Inr (zoomLevel ctx \<le> hi) \<and>
      matchRule ev ps ctx i r =
        (if zoomLevel ctx \<le> hi then
           (case ev (whenExpr r) ctx of
              Inl err \<Rightarrow> Failed err
            | Inr v \<Rightarrow> if truthy v then emitTechnique ev ps ctx i r else Skipped)
         else Skipped)"
    using upper gate [of ctx "zoomLevel ctx \<le> hi" i] by blast
  have c3: "minZoomLevel r = Some a \<and> evalNumber ev ctx a = Inr lo \<and> maxZoomLevel r = None \<longrightarrow>
      zoomInRange ev ctx r = Inr (lo \<le> zoomLevel ctx) \<and>
      matchRule ev ps ctx i r =
        (if lo \<le> zoomLevel ctx then
           (case ev (whenExpr r) ctx of
              Inl err \<Rightarrow> Failed err
            | Inr v \<Rightarrow> if truthy v then emitTechnique ev ps ctx i r else Skipped)
         else Skipped)"
    using lower gate [of ctx "lo \<le> zoomLevel ctx" i] by blast
  have c4: "minZoomLevel r = None \<and> maxZoomLevel r = None \<longrightarrow>
      zoomInRange ev ctx r = Inr True \<and>
      matchRule ev ps ctx i r =
        (case ev (whenExpr r) ctx of
           Inl err \<Rightarrow> Failed err
         | Inr v \<Rightarrow> if truthy v then emitTechnique ev ps ctx i r else Skipped)"
    using none gate [of ctx True i] by simp
  have c7: "minZoomLevel r = Some a \<and> evalNumber ev ctx a = Inr lo \<and>
    maxZoomLevel r = Some b \<and> evalNumber ev ctx b = Inr hi \<and>
    ev (whenExpr r) ctx = Inr v \<and> truthy v \<and> emitTechnique ev ps ctx i r = Matched t \<longrightarrow>
      isMatched (matchRule ev ps ctx i r) = (lo \<le> zoomLevel ctx \<and> zoomLevel ctx \<le> hi) \<and>
      matchRule ev ps ctx i r =
        (if lo \<le> zoomLevel ctx \<and> zoomLevel ctx \<le> hi then Matched t else Skipped)"
    using c1 by simp
  have c8: "candidate layerName r \<and>
    minZoomLevel r = Some a \<and>
    evalNumber ev \<lparr>featureTags = tags, zoomLevel = zoom\<rparr> a = Inr lo \<and>
    maxZoomLevel r = Some b \<and>
    evalNumber ev \<lparr>featureTags = tags, zoomLevel = zoom\<rparr> b = Inr hi \<and>
    ev (whenExpr r) \<lparr>featureTags = tags, zoomLevel = zoom\<rparr> = Inr v \<and> truthy v \<and>
    emitTechnique ev ps \<lparr>featureTags = tags, zoomLevel = zoom\<rparr> 0 r = Matched t \<longrightarrow>
      getMatchingTechniques ev ps [r] layerName tags zoom =
        (if lo \<le> zoom \<and> zoom \<le> hi then [t] else [])"
    using both [of a "\<lparr>featureTags = tags, zoomLevel = zoom\<rparr>" lo b hi]
      gate [of "\<lparr>featureTags = tags, zoomLevel = zoom\<rparr>" "lo \<le> zoom \<and> zoom \<le> hi" 0]
    by (simp add: getMatchingTechniques_def evalTrace_def)
  have five: "evalNumber ev c (Static (JNum 5)) = Inr 5"
    and ten: "evalNumber ev c (Static (JNum 10)) = Inr 10" for c
    by (simp_all add: evalNumber_def)
  have c9: "minZoomLevel r = Some (Static (JNum 5)) \<and> maxZoomLevel r = Some (Static (JNum 10)) \<longrightarrow>
      zoomInRange ev \<lparr>featureTags = tags, zoomLevel = 5\<rparr> r = Inr True \<and>
      zoomInRange ev \<lparr>featureTags = tags, zoomLevel = 10\<rparr> r = Inr True \<and>
      zoomInRange ev \<lparr>featureTags = tags, zoomLevel = 4.999\<rparr> r = Inr False \<and>
      zoomInRange ev \<lparr>featureTags = tags, zoomLevel = 10.001\<rparr> r = Inr False \<and>
      matchRule ev ps \<lparr>featureTags = tags, zoomLevel = 5\<rparr> i r =
        (case ev (whenExpr r) \<lparr>featureTags = tags, zoomLevel = 5\<rparr> of
           Inl err \<Rightarrow> Failed err
         | Inr v \<Rightarrow>
             if truthy v then emitTechnique ev ps \<lparr>featureTags = tags, zoomLevel = 5\<rparr> i r
             else Skipped) \<and>
      matchRule ev ps \<lparr>featureTags = tags, zoomLevel = 10\<rparr> i r =
        (case ev (whenExpr r) \<lparr>featureTags = tags, zoomLevel = 10\<rparr> of
           Inl err \<Rightarrow> Failed err
         | Inr v \<Rightarrow>
             if truthy v then emitTechnique ev ps \<lparr>featureTags = tags, zoomLevel = 10\<rparr> i r
             else Skipped) \<and>
      matchRule ev ps \<lparr>featureTags = tags, zoomLevel = 4.999\<rparr> i r = Skipped \<and>
      matchRule ev ps \<lparr>featureTags = tags, zoomLevel = 10.001\<rparr> i r = Skipped"
  proof
    assume bounds: "minZoomLevel r = Some (Static (JNum 5)) \<and>
      maxZoomLevel r = Some (Static (JNum 10))"
    have z: "zoomInRange ev \<lparr>featureTags = tags, zoomLevel = z\<rparr> r = Inr (5 \<le> z \<and> z \<le> 10)" for z
      using bounds both [of "Static (JNum 5)" "\<lparr>featureTags = tags, zoomLevel = z\<rparr>" 5
          "Static (JNum 10)" 10] five ten
      by simp
    show "zoomInRange ev \<lparr>featureTags = tags, zoomLevel = 5\<rparr> r = Inr True \<and>
      zoomInRange ev \<lparr>featureTags = tags, zoomLevel = 10\<rparr> r = Inr True \<and>
      zoomInRange ev \<lparr>featureTags = tags, zoomLevel = 4.999\<rparr> r = Inr False \<and>
      zoomInRange ev \<lparr>featureTags = tags, zoomLevel = 10.001\<rparr> r = Inr False \<and>
      matchRule ev ps \<lparr>featureTags = tags, zoomLevel = 5\<rparr> i r =
        (case ev (whenExpr r) \<lparr>featureTags = tags, zoomLevel = 5\<rparr> of
           Inl err \<Rightarrow> Failed err
         | Inr v \<Rightarrow>
             if truthy v then emitTechnique ev ps \<lparr>featureTags = tags, zoomLevel = 5\<rparr> i r
             else Skipped) \<and>
      matchRule ev ps \<lparr>featureTags = tags, zoomLevel = 10\<rparr> i r =
        (case ev (whenExpr r) \<lparr>featureTags = tags, zoomLevel = 10\<rparr> of
           Inl err \<Rightarrow> Failed err
         | Inr v \<Rightarrow>
             if truthy v then emitTechnique ev ps \<lparr>featureTags = tags, zoomLevel = 10\<rparr> i r
             else Skipped) \<and>
      matchRule ev ps \<lparr>featureTags = tags, zoomLevel = 4.999\<rparr> i r = Skipped \<and>
      matchRule ev ps \<lparr>featureTags = tags, zoomLevel = 10.001\<rparr> i r = Skipped"
      using z [of 5] z [of 10] z [of "4.999"] z [of "10.001"]
      by (simp add: matchRule_def)
  qed
  show ?thesis
    using c1 c2 c3 c4 skipped matched c7 c8 c9 by blast
qed


theorem zoom_bounds_inclusive_witness:
  "matchRule constantEvaluator [] \<lparr>featureTags = [], zoomLevel = 5\<rparr> 0
     (plainRule\<lparr>minZoomLevel := Some (Static (JNum 5)), maxZoomLevel := Some (Static (JNum 10))\<rparr>)
     = Matched \<lparr>techniqueName = ''solid-line'', attributes = [], emittedRenderOrder = 0,
                priority = 0\<rparr> \<and>
   matchRule constantEvaluator [] \<lparr>featureTags = [], zoomLevel = 10\<rparr> 0
     (plainRule\<lparr>minZoomLevel := Some (Static (JNum 5)), maxZoomLevel := Some (Static (JNum 10))\<rparr>)
     = Matched \<lparr>techniqueName = ''solid-line'', attributes = [], emittedRenderOrder = 0,
                priority = 0\<rparr> \<and>
   matchRule constantEvaluator [] \<lparr>featureTags = [], zoomLevel = 4.999\<rparr> 0
     (plainRule\<lparr>minZoomLevel := Some (Static (JNum 5)), maxZoomLevel := Some (Static (JNum 10))\<rparr>)
     = Skipped \<and>
   matchRule constantEvaluator [] \<lparr>featureTags = [], zoomLevel = 10.001\<rparr> 0
     (plainRule\<lparr>minZoomLevel := Some (Static (JNum 5)), maxZoomLevel := Some (Static (JNum 10))\<rparr>)
     = Skipped \<and>
   getMatchingTechniques constantEvaluator []
     [plainRule\<lparr>minZoomLevel := Some (Static (JNum 5)), maxZoomLevel := Some (Static (JNum 10))\<rparr>]
     ''roads'' [] 5
     = [\<lparr>techniqueName = ''solid-line'', attributes = [], emittedRenderOrder = 0,
         priority = 0\<rparr>] \<and>
   getMatchingTechniques constantEvaluator []
     [plainRule\<lparr>minZoomLevel := Some (Static (JNum 5)), maxZoomLevel := Some (Static (JNum 10))\<rparr>]
     ''roads'' [] 10
     = [\<lparr>techniqueName = ''solid-line'', attributes = [], emittedRenderOrder = 0,
         priority = 0\<rparr>] \<and>
   getMatchingTechniques constantEvaluator []
     [plainRule\<lparr>minZoomLevel := Some (Static (JNum 5)), maxZoomLevel := Some (Static (JNum 10))\<rparr>]
     ''roads'' [] 4.999 = [] \<and>
   getMatchingTechniques constantEvaluator []
     [plainRule\<lparr>minZoomLevel := Some (Static (JNum 5)), maxZoomLevel := Some (Static (JNum 10))\<rparr>]
     ''roads'' [] 10.001 = [] \<and>
   zoomInRange constantEvaluator \<lparr>featureTags = [], zoomLevel = 4.999\<rparr>
     (plainRule\<lparr>minZoomLevel := Some (Static (JNum 5)), maxZoomLevel := Some (Static (JNum 10))\<rparr>)
     = Inr False \<and>
   isMatched (matchRule constantEvaluator [] \<lparr>featureTags = [], zoomLevel = 0\<rparr> 0
     (plainRule\<lparr>maxZoomLevel := Some (Expression (JNum 10))\<rparr>)) \<and>
   matchRule constantEvaluator [] \<lparr>featureTags = [], zoomLevel = 11\<rparr> 0
     (plainRule\<lparr>maxZoomLevel := Some (Expression (JNum 10))\<rparr>) = Skipped \<and>
   isMatched (matchRule constantEvaluator [] \<lparr>featureTags = [], zoomLevel = 22\<rparr> 0
     (plainRule\<lparr>minZoomLevel := Some (Expression (JNum 5))\<rparr>)) \<and>
   matchRule constantEvaluator [] \<lparr>featureTags = [], zoomLevel = 4\<rparr> 0
     (plainRule\<lparr>minZoomLevel := Some (Expression (JNum 5))\<rparr>) = Skipped \<and>
   isMatched (matchRule constantEvaluator [] \<lparr>featureTags = [], zoomLevel = 22\<rparr> 0 plainRule)"
proof -
  let ?r = "plainRule\<lparr>minZoomLevel := Some (Static (JNum 5)),
                       maxZoomLevel := Some (Static (JNum 10))\<rparr>"
  let ?lo = "plainRule\<lparr>minZoomLevel := Some (Expression (JNum 5))\<rparr>"
  let ?hi = "plainRule\<lparr>maxZoomLevel := Some (Expression (JNum 10))\<rparr>"
  let ?t = "\<lparr>techniqueName = ''solid-line'', attributes = [], emittedRenderOrder = 0,
             priority = 0\<rparr>"
  let ?c = "\<lambda>z. \<lparr>featureTags = [], zoomLevel = z\<rparr>"
  have n5: "evalNumber constantEvaluator c (Static (JNum 5)) = Inr 5"
    and n10: "evalNumber constantEvaluator c (Static (JNum 10)) = Inr 10"
    and e5: "evalNumber constantEvaluator c (Expression (JNum 5)) = Inr 5"
    and e10: "evalNumber constantEvaluator c (Expression (JNum 10)) = Inr 10" for c
    by (simp_all add: evalNumber_def constantEvaluator_def)
  have bounds: "minZoomLevel ?r = Some (Static (JNum 5))"
    "maxZoomLevel ?r = Some (Static (JNum 10))"
    "minZoomLevel ?lo = Some (Expression (JNum 5))" "maxZoomLevel ?lo = None"
    "minZoomLevel ?hi = None" "maxZoomLevel ?hi = Some (Expression (JNum 10))"
    "minZoomLevel plainRule = None" "maxZoomLevel plainRule = None"
    by (simp_all add: plainRule_def)
  have cand: "candidate ''roads'' ?r"
    by (simp add: candidate_def plainRule_def)
  have w: "constantEvaluator (whenExpr ?r) c = Inr (JBool True)"
    and wl: "constantEvaluator (whenExpr ?lo) c = Inr (JBool True)"
    and wh: "constantEvaluator (whenExpr ?hi) c = Inr (JBool True)"
    and wp: "constantEvaluator (whenExpr plainRule) c = Inr (JBool True)" for c
    by (simp_all add: constantEvaluator_def plainRule_def)
  have emit: "emitTechnique constantEvaluator [] c 0 ?r = Matched ?t"
    and emitl: "emitTechnique constantEvaluator [] c 0 ?lo = Matched ?t"
    and emith: "emitTechnique constantEvaluator [] c 0 ?hi = Matched ?t"
    and emitp: "emitTechnique constantEvaluator [] c 0 plainRule = Matched ?t" for c
    by (simp_all add: emitTechnique_def plainRule_def mergedAttributes_def
        computeRenderOrder_def computePriority_def lookupPriority_def)
  have at: "matchRule constantEvaluator [] (?c z) 0 ?r =
        (if 5 \<le> z \<and> z \<le> 10 then Matched ?t else Skipped) \<and>
      getMatchingTechniques constantEvaluator [] [?r] ''roads'' [] z =
        (if 5 \<le> z \<and> z \<le> 10 then [?t] else []) \<and>
      zoomInRange constantEvaluator (?c z) ?r = Inr (5 \<le> z \<and> z \<le> 10)" for z
    using zoom_bounds_inclusive [where r = ?r and a = "Static (JNum 5)"
        and b = "Static (JNum 10)" and lo = 5 and hi = 10 and ev = constantEvaluator
        and ps = "[]" and i = 0 and tags = "[]" and layerName = "''roads''"
        and v = "JBool True" and t = ?t and ctx = "?c z" and zoom = z]
      bounds(1,2) n5 [of "?c z"] n10 [of "?c z"] cand w [of "?c z"] emit [of "?c z"]
    by simp
  have above: "matchRule constantEvaluator [] (?c z) 0 ?lo =
        (if 5 \<le> z then Matched ?t else Skipped)" for z
    using zoom_bounds_inclusive [where r = ?lo and a = "Expression (JNum 5)"
        and lo = 5 and ev = constantEvaluator and ps = "[]" and i = 0 and ctx = "?c z"]
      bounds(3,4) e5 [of "?c z"] wl [of "?c z"] emitl [of "?c z"]
    by simp
  have below: "matchRule constantEvaluator [] (?c z) 0 ?hi =
        (if z \<le> 10 then Matched ?t else Skipped)" for z
    using zoom_bounds_inclusive [where r = ?hi and b = "Expression (JNum 10)"
        and hi = 10 and ev = constantEvaluator and ps = "[]" and i = 0 and ctx = "?c z"]
      bounds(5,6) e10 [of "?c z"] wh [of "?c z"] emith [of "?c z"]
    by simp
  have free: "matchRule constantEvaluator [] (?c z) 0 plainRule = Matched ?t" for z
    using zoom_bounds_inclusive [where r = plainRule and ev = constantEvaluator
        and ps = "[]" and i = 0 and ctx = "?c z"]
      bounds(7,8) wp [of "?c z"] emitp [of "?c z"]
    by simp
  show ?thesis
    using at [of 5] at [of 10] at [of "4.999"] at [of "10.001"]
      above [of 22] above [of 4] below [of 0] below [of 11] free [of 22]
    by simp
qed

subsection \<open>The render order\<close>

lemma matchRule_Matched_renderOrder:
  "matchRule ev ps ctx i r = Matched t \<Longrightarrow>
   computeRenderOrder ev ctx i r = Inr (emittedRenderOrder t)"
  by (auto simp add: matchRule_def emitTechnique_def split: sum.splits bool.splits if_splits)

lemma matchRule_default_order:
  "matchRule ev ps ctx i r = Matched t \<Longrightarrow> renderOrder r = None \<Longrightarrow>
   emittedRenderOrder t = real i"
  using matchRule_Matched_renderOrder [of ev ps ctx i r t]
  by (simp add: computeRenderOrder_def)

lemma default_orders_sorted:
  "sorted_wrt (<) (map fst irs) \<Longrightarrow> list_all (\<lambda>ir. renderOrder (snd ir) = None) irs \<Longrightarrow>
   sorted_wrt (<) (map emittedRenderOrder (techniquesOf (evalRules ev ps ctx irs))) \<and>
   list_all (\<lambda>t. \<exists>i \<in> set (map fst irs). emittedRenderOrder t = real i)
     (techniquesOf (evalRules ev ps ctx irs))"
proof (induction irs)
  case Nil
  then show ?case by simp
next
  case (Cons x irs)
  obtain i r where x: "x = (i, r)" by (cases x)
  have ih: "sorted_wrt (<) (map emittedRenderOrder (techniquesOf (evalRules ev ps ctx irs)))"
    and ih2: "list_all (\<lambda>t. \<exists>i \<in> set (map fst irs). emittedRenderOrder t = real i)
       (techniquesOf (evalRules ev ps ctx irs))"
    using Cons by simp_all
  have lt: "\<forall>j \<in> set (map fst irs). i < j"
    using Cons.prems x by simp
  have later: "\<forall>u \<in> set (techniquesOf (evalRules ev ps ctx irs)). real i < emittedRenderOrder u"
    using ih2 lt unfolding list_all_iff by fastforce
  have weaken: "list_all (\<lambda>t. \<exists>i \<in> set (map fst (x # irs)). emittedRenderOrder t = real i)
       (techniquesOf (evalRules ev ps ctx irs))"
    using ih2 unfolding list_all_iff by fastforce
  show ?case
  proof (cases "matchRule ev ps ctx i r")
    case Skipped
    then show ?thesis using x ih weaken by simp
  next
    case (Failed err)
    then show ?thesis using x ih weaken by simp
  next
    case (Matched t)
    have "emittedRenderOrder t = real i"
      using Matched Cons.prems x matchRule_default_order [of ev ps ctx i r t] by simp
    then show ?thesis
      using Matched x ih weaken later by simp
  qed
qed

lemma candidates_default:
  "list_all (\<lambda>r. renderOrder r = None) rules \<Longrightarrow>
   list_all (\<lambda>ir. renderOrder (snd ir) = None) (filter P (enumerate n rules))"
  unfolding list_all_iff by (auto simp add: in_set_enumerate_eq)

text \<open>Claim C8: every emitted technique comes from a rule that matched, and its render
  order is the rule's explicit value when one is given and the rule's declaration
  index in the style set otherwise. Rules are tested in increasing declaration index,
  so when no rule gives a render order the emitted render orders increase strictly
  along the result.\<close>

theorem renderOrder_default:
  assumes "t \<in> set (getMatchingTechniques ev ps rules layerName tags zoom)"
  shows "(\<exists>i < length rules.
            matchRule ev ps \<lparr>featureTags = tags, zoomLevel = zoom\<rparr> i (rules ! i) = Matched t \<and>
            (case renderOrder (rules ! i) of
               None \<Rightarrow> emittedRenderOrder t = real i
             | Some p \<Rightarrow>
                 evalNumber ev \<lparr>featureTags = tags, zoomLevel = zoom\<rparr> p
                   = Inr (emittedRenderOrder t))) \<and>
         sorted_wrt (<) (map fst (evalTrace ev ps rules layerName tags zoom)) \<and>
         (list_all (\<lambda>r. renderOrder r = None) rules \<longrightarrow>
            sorted_wrt (<)
              (map emittedRenderOrder (getMatchingTechniques ev ps rules layerName tags zoom)))"
proof -
  let ?ctx = "\<lparr>featureTags = tags, zoomLevel = zoom\<rparr>"
  let ?P = "\<lambda>ir. candidate layerName (snd ir)"
  obtain i where i: "(i, Matched t) \<in> set (evalTrace ev ps rules layerName tags zoom)"
    using assms unfolding getMatchingTechniques_def techniquesOf_mem by blast
  then obtain r where r: "(i, r) \<in> set (filter ?P (enumerate 0 rules))"
    and out: "Matched t = matchRule ev ps ?ctx i r"
    unfolding evalTrace_def using evalRules_outcome by blast
  from r have il: "i < length rules" and ri: "rules ! i = r"
    by (auto simp add: in_set_enumerate_eq)
  have "computeRenderOrder ev ?ctx i r = Inr (emittedRenderOrder t)"
    using out matchRule_Matched_renderOrder [of ev ps ?ctx i r t] by simp
  then have order: "case renderOrder r of
               None \<Rightarrow> emittedRenderOrder t = real i
             | Some p \<Rightarrow> evalNumber ev ?ctx p = Inr (emittedRenderOrder t)"
    by (simp add: computeRenderOrder_def split: option.splits)
  have indices: "sorted_wrt (<) (map fst (evalTrace ev ps rules layerName tags zoom))"
    unfolding evalTrace_def by (rule evalRules_sorted) (rule candidates_sorted)
  have defaults: "sorted_wrt (<)
      (map emittedRenderOrder (getMatchingTechniques ev ps rules layerName tags zoom))"
    if "list_all (\<lambda>r. renderOrder r = None) rules"
    unfolding getMatchingTechniques_def evalTrace_def
    using default_orders_sorted [OF candidates_sorted candidates_default [OF that]]
    by blast
  show ?thesis
    using il ri out order indices defaults by auto
qed

theorem renderOrder_default_witness:
  "\<lparr>techniqueName = ''fill'', attributes = [], emittedRenderOrder = 1, priority = 1\<rparr>
     \<in> set (getMatchingTechniques constantEvaluator []
         [plainRule, plainRule\<lparr>technique := ''fill''\<rparr>] ''roads'' [] 10) \<and>
   list_all (\<lambda>r. renderOrder r = None) [plainRule, plainRule\<lparr>technique := ''fill''\<rparr>] \<and>
   sorted_wrt (<) (map fst
     (evalTrace constantEvaluator []
        [plainRule, plainRule\<lparr>technique := ''fill''\<rparr>] ''roads'' [] 10)) \<and>
   sorted_wrt (<) (map emittedRenderOrder
     (getMatchingTechniques constantEvaluator []
        [plainRule, plainRule\<lparr>technique := ''fill''\<rparr>] ''roads'' [] 10)) \<and>
   getMatchingTechniques constantEvaluator []
     [plainRule, plainRule\<lparr>technique := ''fill''\<rparr>] ''roads'' [] 10 =
     [\<lparr>techniqueName = ''solid-line'', attributes = [], emittedRenderOrder = 0, priority = 0\<rparr>,
      \<lparr>techniqueName = ''fill'', attributes = [], emittedRenderOrder = 1, priority = 1\<rparr>] \<and>
   getMatchingTechniques constantEvaluator []
     [plainRule, plainRule\<lparr>renderOrder := Some (Static (JNum 7))\<rparr>] ''roads'' [] 10 =
     [\<lparr>techniqueName = ''solid-line'', attributes = [], emittedRenderOrder = 0, priority = 0\<rparr>,
      \<lparr>techniqueName = ''solid-line'', attributes = [], emittedRenderOrder = 7, priority = 1\<rparr>]"
proof -
  let ?rules = "[plainRule, plainRule\<lparr>technique := ''fill''\<rparr>]"
  let ?t = "\<lparr>techniqueName = ''fill'', attributes = [], emittedRenderOrder = 1, priority = 1\<rparr>"
  have run: "getMatchingTechniques constantEvaluator [] ?rules ''roads'' [] 10 =
     [\<lparr>techniqueName = ''solid-line'', attributes = [], emittedRenderOrder = 0, priority = 0\<rparr>, ?t]"
    by (simp add: evaluation enumerate_eq_zip upt_rec)
  have run7: "getMatchingTechniques constantEvaluator []
     [plainRule, plainRule\<lparr>renderOrder := Some (Static (JNum 7))\<rparr>] ''roads'' [] 10 =
     [\<lparr>techniqueName = ''solid-line'', attributes = [], emittedRenderOrder = 0, priority = 0\<rparr>,
      \<lparr>techniqueName = ''solid-line'', attributes = [], emittedRenderOrder = 7, priority = 1\<rparr>]"
    by (simp add: evaluation enumerate_eq_zip upt_rec)
  have mem: "?t \<in> set (getMatchingTechniques constantEvaluator [] ?rules ''roads'' [] 10)"
    unfolding run by simp
  have all: "list_all (\<lambda>r. renderOrder r = None) ?rules"
    by (simp add: plainRule_def)
  have "sorted_wrt (<) (map fst (evalTrace constantEvaluator [] ?rules ''roads'' [] 10))"
    and "sorted_wrt (<) (map emittedRenderOrder
      (getMatchingTechniques constantEvaluator [] ?rules ''roads'' [] 10))"
    using renderOrder_default [OF mem] all by blast+
  then show ?thesis
    using mem all run run7 by blast
qed

end
